theory Spec2Isabelle
  imports Complex_Main "HOL-Library.Sublist" "HOL-Library.Code_Target_Nat"
begin

section \<open>JavaScript strings and numbers\<close>

text \<open>
  A JavaScript string is a sequence of UTF-16 code units; a code unit is modelled by its
  number. The literals of the source are ASCII apart from the bullet and the special
  characters of the format check, which are written by their code-unit numbers.
  JavaScript numbers are modelled by exact rationals: every number the scorer computes is
  an integer, a quotient of two small integers, or a product of such a number with a
  decimal constant.
\<close>

type_synonym jschar = nat
type_synonym jsstring = "jschar list"

definition js :: "string \<Rightarrow> jsstring" where
  "js s = map of_char s"

text \<open>The characters of the class \<open>\s\<close>, which are also the ones \<open>trim\<close> removes.\<close>

definition isSpace :: "jschar \<Rightarrow> bool" where
  "isSpace c = (c \<in> set [9, 10, 11, 12, 13, 32, 160, 5760, 8232, 8233, 8239, 8287, 12288, 65279]
                 \<or> (8192 \<le> c \<and> c \<le> 8202))"

definition isDigit :: "jschar \<Rightarrow> bool" where
  "isDigit c = (48 \<le> c \<and> c \<le> 57)"

definition isUpper :: "jschar \<Rightarrow> bool" where
  "isUpper c = (65 \<le> c \<and> c \<le> 90)"

definition isLower :: "jschar \<Rightarrow> bool" where
  "isLower c = (97 \<le> c \<and> c \<le> 122)"

text \<open>The class \<open>\w\<close>, which also decides the word boundary \<open>\b\<close>.\<close>

definition isWordChar :: "jschar \<Rightarrow> bool" where
  "isWordChar c = (isDigit c \<or> isUpper c \<or> isLower c \<or> c = 95)"

definition trim :: "jsstring \<Rightarrow> jsstring" where
  "trim s = rev (dropWhile isSpace (rev (dropWhile isSpace s)))"

text \<open>\<open>s.includes(t)\<close>: \<open>t\<close> occurs in \<open>s\<close> as a contiguous substring.\<close>

fun includesStr :: "jsstring \<Rightarrow> jsstring \<Rightarrow> bool" where
  "includesStr [] t = (t = [])"
| "includesStr (x # xs) t = (prefix t (x # xs) \<or> includesStr xs t)"

text \<open>\<open>s.split(c)\<close> for a separator of one character.\<close>

fun splitChar :: "jschar \<Rightarrow> jsstring \<Rightarrow> jsstring list" where
  "splitChar c [] = [[]]"
| "splitChar c (x # xs) =
     (if x = c then [] # splitChar c xs
      else (case splitChar c xs of [] \<Rightarrow> [[x]] | p # ps \<Rightarrow> (x # p) # ps))"

text \<open>\<open>parseInt\<close> on a string of decimal digits.\<close>

definition parseInt :: "jsstring \<Rightarrow> nat" where
  "parseInt ds = foldl (\<lambda>a d. 10 * a + (d - 48)) 0 ds"

text \<open>\<open>Math.round\<close> rounds to the nearest integer, a tie towards plus infinity.\<close>

definition js_round :: "rat \<Rightarrow> int" where
  "js_round x = \<lfloor>x + 1 / 2\<rfloor>"

text \<open>A \<open>Set\<close> keeps its elements in the order of their first insertion.\<close>

definition setAdd :: "'a list \<Rightarrow> 'a \<Rightarrow> 'a list" where
  "setAdd s x = (if x \<in> set s then s else s @ [x])"

definition newSet :: "'a list \<Rightarrow> 'a list" where
  "newSet xs = foldl setAdd [] xs"

text \<open>
  What the code takes from its host: the lower-casing of a string, which follows the Unicode
  tables of the JavaScript engine, and the two natural-language libraries the extractor
  calls, \<open>natural\<close> (the terms of a one-document TF-IDF index, in ranked order) and
  \<open>compromise\<close> (noun phrases, organisations and places of a text). None of them is code
  of this repository; every theorem below holds for any such functions.
\<close>

record host =
  toLowerCase :: "jsstring \<Rightarrow> jsstring"
  listTerms :: "jsstring \<Rightarrow> jsstring list"
  nouns :: "jsstring \<Rightarrow> jsstring list"
  organizations :: "jsstring \<Rightarrow> jsstring list"
  places :: "jsstring \<Rightarrow> jsstring list"

text \<open>A host for running the model on ASCII text: only the letters A to Z have a lower case.\<close>

definition asciiLower :: "jsstring \<Rightarrow> jsstring" where
  "asciiLower s = map (\<lambda>c. if isUpper c then c + 32 else c) s"

definition asciiHost :: host where
  "asciiHost = \<lparr>toLowerCase = asciiLower, listTerms = (\<lambda>t. []), nouns = (\<lambda>t. []),
     organizations = (\<lambda>t. []), places = (\<lambda>t. [])\<rparr>"

section \<open>Regular expressions\<close>

text \<open>
  The regular expressions of the source, with the backtracking semantics of the language:
  alternatives are tried from the left, a quantifier is greedy, and an iteration of a
  star that consumes nothing is rejected. \<open>Group\<close> is the capturing group (no expression
  of the source has more than one).
\<close>

datatype regex =
    Chr "jschar \<Rightarrow> bool"
  | Eps
  | Seq regex regex
  | Alt regex regex
  | Star regex
  | WordB
  | Group regex

text \<open>
  A matcher state: the character before the current position (for \<open>\b\<close>), the input that
  is left, and the text of the capturing group.
\<close>

type_synonym mstate = "jschar option \<times> jsstring \<times> jsstring option"

definition wordBefore :: "jschar option \<Rightarrow> bool" where
  "wordBefore p = (case p of None \<Rightarrow> False | Some c \<Rightarrow> isWordChar c)"

definition wordAfter :: "jsstring \<Rightarrow> bool" where
  "wordAfter s = (case s of [] \<Rightarrow> False | c # _ \<Rightarrow> isWordChar c)"

fun rmatch :: "regex \<Rightarrow> mstate \<Rightarrow> (mstate \<Rightarrow> mstate option) \<Rightarrow> mstate option" where
  "rmatch (Chr P) (p, s, c) k =
     (case s of [] \<Rightarrow> None | x # xs \<Rightarrow> if P x then k (Some x, xs, c) else None)"
| "rmatch Eps st k = k st"
| "rmatch (Seq a b) st k = rmatch a st (\<lambda>st'. rmatch b st' k)"
| "rmatch (Alt a b) st k =
     (case rmatch a st k of Some r \<Rightarrow> Some r | None \<Rightarrow> rmatch b st k)"
| "rmatch (Star a) (p, s, c) k =
     (case rmatch a (p, s, c)
             (\<lambda>(p', s', c'). if length s' < length s then rmatch (Star a) (p', s', c') k else None) of
        Some r \<Rightarrow> Some r
      | None \<Rightarrow> k (p, s, c))"
| "rmatch WordB (p, s, c) k = (if wordBefore p \<noteq> wordAfter s then k (p, s, c) else None)"
| "rmatch (Group a) (p, s, c) k =
     rmatch a (p, s, c) (\<lambda>(p', s', c'). k (p', s', Some (take (length s - length s') s)))"

text \<open>A match at the current position: the matched text and the captured text.\<close>

type_synonym rmatched = "jsstring \<times> jsstring option"

definition matchAt :: "regex \<Rightarrow> jschar option \<Rightarrow> jsstring \<Rightarrow> rmatched option" where
  "matchAt r p s =
     (case rmatch r (p, s, None) Some of
        None \<Rightarrow> None
      | Some (p', s', c') \<Rightarrow> Some (take (length s - length s') s, c'))"

text \<open>\<open>re.test(s)\<close> on a fresh expression: is there a match at some position.\<close>

fun testFrom :: "regex \<Rightarrow> jschar option \<Rightarrow> jsstring \<Rightarrow> bool" where
  "testFrom r p [] = (matchAt r p [] \<noteq> None)"
| "testFrom r p (x # xs) = (matchAt r p (x # xs) \<noteq> None \<or> testFrom r (Some x) xs)"

definition test :: "regex \<Rightarrow> jsstring \<Rightarrow> bool" where
  "test r s = testFrom r None s"

text \<open>
  The matches of a global expression, from the left and without overlap
  (\<open>s.match(re)\<close> and \<open>s.matchAll(re)\<close>). The counter is the number of characters of
  the last match still to pass; after an empty match the search resumes one character on.
\<close>

fun matchesFrom :: "regex \<Rightarrow> nat \<Rightarrow> jschar option \<Rightarrow> jsstring \<Rightarrow> rmatched list" where
  "matchesFrom r (Suc n) p (x # xs) = matchesFrom r n (Some x) xs"
| "matchesFrom r (Suc n) p [] = []"
| "matchesFrom r 0 p [] = (case matchAt r p [] of None \<Rightarrow> [] | Some m \<Rightarrow> [m])"
| "matchesFrom r 0 p (x # xs) =
     (case matchAt r p (x # xs) of
        None \<Rightarrow> matchesFrom r 0 (Some x) xs
      | Some m \<Rightarrow> m # matchesFrom r (length (fst m) - 1) (Some x) xs)"

definition matchAll :: "regex \<Rightarrow> jsstring \<Rightarrow> rmatched list" where
  "matchAll r s = matchesFrom r 0 None s"

text \<open>
  \<open>re.exec(s)\<close> on a global expression, from the position \<open>lastIndex\<close>: the first match at
  or after it, and the position where the match ends, which is the next \<open>lastIndex\<close>. A
  position is the character before it and the input after it.
\<close>

fun advance :: "nat \<Rightarrow> jschar option \<Rightarrow> jsstring \<Rightarrow> jschar option \<times> jsstring" where
  "advance 0 p s = (p, s)"
| "advance (Suc n) p [] = (p, [])"
| "advance (Suc n) p (x # xs) = advance n (Some x) xs"

fun execFrom ::
  "regex \<Rightarrow> jschar option \<Rightarrow> jsstring \<Rightarrow> (rmatched \<times> jschar option \<times> jsstring) option" where
  "execFrom r p [] = (case matchAt r p [] of None \<Rightarrow> None | Some m \<Rightarrow> Some (m, p, []))"
| "execFrom r p (x # xs) =
     (case matchAt r p (x # xs) of
        Some m \<Rightarrow> Some (m, advance (length (fst m)) p (x # xs))
      | None \<Rightarrow> execFrom r (Some x) xs)"

text \<open>
  The loop \<open>while ((match = re.exec(s)) !== null)\<close>, collecting the matches. It runs until
  \<open>exec\<close> finds no match; an empty match leaves \<open>lastIndex\<close> where it is, and the loop then
  never ends, which is the value \<open>None\<close>.
\<close>

partial_function (option) execLoop ::
  "regex \<Rightarrow> jschar option \<Rightarrow> jsstring \<Rightarrow> rmatched list option" where
  "execLoop r p s =
     (case execFrom r p s of
        None \<Rightarrow> Some []
      | Some (m, p', s') \<Rightarrow> Option.bind (execLoop r p' s') (\<lambda>ms. Some (m # ms)))"

text \<open>The least number of characters a match of an expression consumes.\<close>

fun minLen :: "regex \<Rightarrow> nat" where
  "minLen (Chr P) = 1"
| "minLen Eps = 0"
| "minLen (Seq a b) = minLen a + minLen b"
| "minLen (Alt a b) = min (minLen a) (minLen b)"
| "minLen (Star a) = 0"
| "minLen WordB = 0"
| "minLen (Group a) = minLen a"

text \<open>
  \<open>s.split(re)\<close>. \<open>cur\<close> is the piece being collected; a match that is empty at the start
  of a piece does not split, and the text that is left when the input ends is the last
  piece. On the empty string the result is the one empty piece, or no piece when the
  expression matches the empty string.
\<close>

fun splitFrom :: "regex \<Rightarrow> nat \<Rightarrow> jschar option \<Rightarrow> jsstring \<Rightarrow> jsstring \<Rightarrow> jsstring list" where
  "splitFrom r (Suc n) p cur (x # xs) = splitFrom r n (Some x) cur xs"
| "splitFrom r n p cur [] = [cur]"
| "splitFrom r 0 p cur (x # xs) =
     (case matchAt r p (x # xs) of
        None \<Rightarrow> splitFrom r 0 (Some x) (cur @ [x]) xs
      | Some m \<Rightarrow>
          if fst m = [] then
            (if cur = [] then splitFrom r 0 (Some x) [x] xs
             else cur # splitFrom r 0 (Some x) [x] xs)
          else cur # splitFrom r (length (fst m) - 1) (Some x) [] xs)"

definition splitRe :: "regex \<Rightarrow> jsstring \<Rightarrow> jsstring list" where
  "splitRe r s =
     (if s = [] then (if matchAt r None [] \<noteq> None then [] else [[]])
      else splitFrom r 0 None [] s)"

subsection \<open>Writing expressions\<close>

text \<open>
  Under the flag \<open>i\<close> two characters match when their canonical forms agree. For an ASCII
  pattern character that is the comparison of the ASCII upper cases: the language maps no
  character outside ASCII to an ASCII one.
\<close>

definition canon :: "jschar \<Rightarrow> jschar" where
  "canon c = (if isLower c then c - 32 else c)"

definition Lit :: "jschar \<Rightarrow> regex" where
  "Lit c = Chr (\<lambda>x. x = c)"

definition LitI :: "jschar \<Rightarrow> regex" where
  "LitI c = Chr (\<lambda>x. canon x = canon c)"

definition OneOf :: "jsstring \<Rightarrow> regex" where
  "OneOf cs = Chr (\<lambda>x. x \<in> set cs)"

fun Seqs :: "regex list \<Rightarrow> regex" where
  "Seqs [] = Eps"
| "Seqs [r] = r"
| "Seqs (r # rs) = Seq r (Seqs rs)"

fun Alts :: "regex list \<Rightarrow> regex" where
  "Alts [] = Eps"
| "Alts [r] = r"
| "Alts (r # rs) = Alt r (Alts rs)"

definition StrI :: "string \<Rightarrow> regex" where
  "StrI s = Seqs (map (\<lambda>c. LitI (of_char c)) s)"

definition Opt :: "regex \<Rightarrow> regex" where
  "Opt r = Alt r Eps"

definition Plus :: "regex \<Rightarrow> regex" where
  "Plus r = Seq r (Star r)"

definition AnyI :: "string list \<Rightarrow> regex" where
  "AnyI ws = Alts (map StrI ws)"

section \<open>The keyword extractor\<close>

datatype category =
  programming | frameworks | databases | cloud | dataScience | tools | methodologies

definition TECHNICAL_SKILLS :: "(category \<times> string list) list" where
  "TECHNICAL_SKILLS =
    [(programming,
       [''python'', ''java'', ''javascript'', ''typescript'', ''c++'', ''c#'', ''ruby'', ''go'', ''rust'',
        ''php'', ''swift'', ''kotlin'', ''scala'', ''r'', ''matlab'', ''sql'', ''html'', ''css'']),
     (frameworks,
       [''react'', ''angular'', ''vue'', ''node.js'', ''express'', ''django'', ''flask'', ''spring'',
        ''tensorflow'', ''pytorch'', ''keras'', ''scikit-learn'', ''pandas'', ''numpy'', ''react native'',
        ''flutter'', ''next.js'', ''fastapi'', ''laravel'', ''rails'', ''.net'', ''asp.net'']),
     (databases,
       [''mysql'', ''postgresql'', ''mongodb'', ''redis'', ''elasticsearch'', ''cassandra'',
        ''dynamodb'', ''oracle'', ''sql server'', ''sqlite'', ''mariadb'', ''neo4j'']),
     (cloud,
       [''aws'', ''azure'', ''gcp'', ''google cloud'', ''docker'', ''kubernetes'', ''jenkins'',
        ''terraform'', ''ansible'', ''ci/cd'', ''devops'', ''microservices'', ''serverless'']),
     (dataScience,
       [''machine learning'', ''deep learning'', ''nlp'', ''computer vision'', ''data mining'',
        ''statistical analysis'', ''data visualization'', ''big data'', ''spark'', ''hadoop'',
        ''tableau'', ''power bi'', ''jupyter'', ''a/b testing'', ''predictive modeling'']),
     (tools,
       [''git'', ''github'', ''gitlab'', ''jira'', ''confluence'', ''slack'', ''vscode'',
        ''intellij'', ''postman'', ''swagger'', ''figma'', ''sketch'', ''photoshop'']),
     (methodologies,
       [''agile'', ''scrum'', ''kanban'', ''waterfall'', ''tdd'', ''bdd'', ''ci/cd'',
        ''pair programming'', ''code review'', ''version control''])]"

definition ACTION_VERBS :: "string list" where
  "ACTION_VERBS =
    [''achieved'', ''improved'', ''developed'', ''created'', ''implemented'', ''designed'',
     ''managed'', ''led'', ''coordinated'', ''increased'', ''decreased'', ''reduced'',
     ''optimized'', ''streamlined'', ''automated'', ''launched'', ''delivered'', ''built'',
     ''established'', ''analyzed'', ''evaluated'', ''researched'', ''collaborated'',
     ''mentored'', ''trained'', ''presented'', ''negotiated'', ''resolved'', ''executed'']"

definition STOP_WORDS :: "string list" where
  "STOP_WORDS =
    [''the'', ''a'', ''an'', ''and'', ''or'', ''but'', ''in'', ''on'', ''at'', ''to'', ''for'',
     ''of'', ''with'', ''by'', ''from'', ''as'', ''is'', ''was'', ''are'', ''were'', ''been'',
     ''be'', ''have'', ''has'', ''had'', ''do'', ''does'', ''did'', ''will'', ''would'',
     ''could'', ''should'', ''may'', ''might'', ''must'', ''can'', ''this'', ''that'',
     ''these'', ''those'', ''i'', ''you'', ''he'', ''she'', ''it'', ''we'', ''they'']"

definition isStopWord :: "jsstring \<Rightarrow> bool" where
  "isStopWord w = (w \<in> set (map js STOP_WORDS))"

record skillRecord =
  skill :: jsstring
  category :: category
  count :: nat

record verbRecord =
  verb :: jsstring
  verbCount :: nat

datatype entityType = organization | place

record entity =
  entityType :: entityType
  entityValue :: jsstring

record metadata =
  totalKeywords :: nat
  skillsCount :: nat
  actionVerbsCount :: nat

text \<open>The field \<open>keywords\<close> of the source is \<open>allKeywords\<close> here.\<close>

record keywordSet =
  allKeywords :: "jsstring list"
  skills :: "skillRecord list"
  actionVerbs :: "verbRecord list"
  phrases :: "jsstring list"
  entities :: "entity list"
  metadata :: "metadata option"

text \<open>\<open>xs.sort((a, b) => b.count - a.count)\<close>: a stable sort, the larger count first.\<close>

definition sortByCountDesc :: "('a \<Rightarrow> nat) \<Rightarrow> 'a list \<Rightarrow> 'a list" where
  "sortByCountDesc cnt xs = sort_key (\<lambda>x. - int (cnt x)) xs"

definition extractTFIDFKeywords :: "host \<Rightarrow> jsstring \<Rightarrow> jsstring list" where
  "extractTFIDFKeywords h text =
     take 50 (filter (\<lambda>term. \<not> isStopWord term \<and> length term > 2) (listTerms h text))"

text \<open>
  The expression built for a skill: the skill with its special characters escaped, that is
  the skill as a literal, between two word boundaries, under the flags \<open>gi\<close>.
\<close>

definition skillRegex :: "string \<Rightarrow> regex" where
  "skillRegex s = Seqs [WordB, StrI s, WordB]"

definition skillsOfCategory :: "jsstring \<Rightarrow> category \<times> string list \<Rightarrow> skillRecord list" where
  "skillsOfCategory processedText cs =
     concat (map (\<lambda>s. let matches = matchAll (skillRegex s) processedText
                      in if length matches > 0
                         then [\<lparr>skill = js s, category = fst cs, count = length matches\<rparr>]
                         else [])
                 (snd cs))"

definition extractSkills :: "jsstring \<Rightarrow> skillRecord list" where
  "extractSkills text =
     (let processedText = js '' '' @ text @ js '' '';
          foundSkills = concat (map (skillsOfCategory processedText) TECHNICAL_SKILLS)
      in sortByCountDesc count foundSkills)"

text \<open>The sentences that \<open>extractActionVerbs\<close> splits off are never read, and are left out.\<close>

definition extractActionVerbs :: "jsstring \<Rightarrow> verbRecord list" where
  "extractActionVerbs text =
     (let foundVerbs =
            concat (map (\<lambda>v. let matches = matchAll (Seqs [WordB, StrI v, WordB]) text
                            in if length matches > 0
                               then [\<lparr>verb = js v, verbCount = length matches\<rparr>]
                               else [])
                        ACTION_VERBS)
      in sortByCountDesc verbCount foundVerbs)"

text \<open>\<open>/\b([a-z]+\s+[a-z]+)\b/gi\<close>.\<close>

definition bigramRegex :: regex where
  "bigramRegex =
     Seqs [WordB,
           Group (Seqs [Plus (Chr (\<lambda>c. isLower c \<or> isUpper c)), Plus (Chr isSpace),
                        Plus (Chr (\<lambda>c. isLower c \<or> isUpper c))]),
           WordB]"

text \<open>
  The phrases are collected in a set: first the noun phrases, then the captured text of
  each match of the loop over \<open>bigramRegex.exec\<close>. The result is \<open>None\<close> when that loop
  does not end.
\<close>

definition addNoun :: "host \<Rightarrow> jsstring list \<Rightarrow> jsstring \<Rightarrow> jsstring list" where
  "addNoun h phraseSet noun =
     (if length (splitChar 32 noun) \<ge> 2 \<and> length noun > 5
      then setAdd phraseSet (toLowerCase h noun) else phraseSet)"

definition addBigram :: "jsstring list \<Rightarrow> rmatched \<Rightarrow> jsstring list" where
  "addBigram phraseSet m =
     (case snd m of
        None \<Rightarrow> phraseSet
      | Some phrase \<Rightarrow>
          if \<not> isStopWord (hd (splitChar 32 phrase)) \<and> length phrase > 5
          then setAdd phraseSet phrase else phraseSet)"

definition extractPhrases :: "host \<Rightarrow> jsstring \<Rightarrow> jsstring list option" where
  "extractPhrases h text =
     (let fromNouns = foldl (addNoun h) [] (nouns h text)
      in case execLoop bigramRegex None (toLowerCase h text) of
           None \<Rightarrow> None
         | Some ms \<Rightarrow> Some (take 30 (foldl addBigram fromNouns ms)))"

definition extractEntities :: "host \<Rightarrow> jsstring \<Rightarrow> entity list" where
  "extractEntities h text =
     (let orgs = map (\<lambda>org. \<lparr>entityType = organization, entityValue = org\<rparr>)
                     (filter (\<lambda>org. length org > 2) (organizations h text));
          plcs = map (\<lambda>pl. \<lparr>entityType = place, entityValue = pl\<rparr>)
                     (filter (\<lambda>pl. length pl > 2) (places h text))
      in take 20 (orgs @ plcs))"

text \<open>
  The result is \<open>None\<close> when the call does not return; the code raises no error of its own,
  and the library calls are taken to return.
\<close>

definition extractKeywords :: "host \<Rightarrow> jsstring \<Rightarrow> keywordSet option" where
  "extractKeywords h text =
     (if text = [] \<or> length (trim text) = 0 then
        Some \<lparr>allKeywords = [], skills = [], actionVerbs = [], phrases = [], entities = [],
              metadata = None\<rparr>
      else
        let cleanText = toLowerCase h text;
            tfidfKeywords = extractTFIDFKeywords h text;
            skills = extractSkills cleanText;
            actionVerbs = extractActionVerbs cleanText
        in case extractPhrases h text of
             None \<Rightarrow> None
           | Some phraseList \<Rightarrow>
               let entities = extractEntities h text;
                   keywordSet = newSet (tfidfKeywords @ map skill skills @ phraseList)
               in Some \<lparr>allKeywords = keywordSet, skills = skills, actionVerbs = actionVerbs,
                        phrases = phraseList, entities = entities,
                        metadata = Some \<lparr>totalKeywords = length keywordSet,
                                         skillsCount = length skills,
                                         actionVerbsCount = length actionVerbs\<rparr>\<rparr>)"

subsection \<open>Comparing two keyword lists\<close>

record comparison =
  matched :: "jsstring list"
  missing :: "jsstring list"
  matchRate :: rat
  totalJobKeywords :: nat
  matchedCount :: nat
  missingCount :: nat

text \<open>The inner loop over the resume's keywords, left at the first partial match.\<close>

fun partialMatch :: "jsstring list \<Rightarrow> jsstring \<Rightarrow> bool" where
  "partialMatch [] lowerKeyword = False"
| "partialMatch (resumeKeyword # rest) lowerKeyword =
     (if includesStr resumeKeyword lowerKeyword \<or> includesStr lowerKeyword resumeKeyword
      then True else partialMatch rest lowerKeyword)"

text \<open>One round of the loop over the job's keywords, on the two lists being built.\<close>

definition compareStep ::
  "host \<Rightarrow> jsstring list \<Rightarrow> jsstring list \<times> jsstring list \<Rightarrow> jsstring
     \<Rightarrow> jsstring list \<times> jsstring list" where
  "compareStep h resumeSet acc keyword =
     (let lowerKeyword = toLowerCase h keyword in
      if lowerKeyword \<in> set resumeSet then (fst acc @ [keyword], snd acc)
      else if partialMatch resumeSet lowerKeyword then (fst acc @ [keyword], snd acc)
      else (fst acc, snd acc @ [keyword]))"

definition compareKeywords :: "host \<Rightarrow> jsstring list \<Rightarrow> jsstring list \<Rightarrow> comparison" where
  "compareKeywords h resumeKeywords jobKeywords =
     (let resumeSet = newSet (map (toLowerCase h) resumeKeywords);
          acc = foldl (compareStep h resumeSet) ([], []) jobKeywords
      in \<lparr>matched = fst acc, missing = snd acc,
          matchRate = (if length jobKeywords > 0
                       then (of_nat (length (fst acc)) / of_nat (length jobKeywords)) * 100
                       else 0),
          totalJobKeywords = length jobKeywords,
          matchedCount = length (fst acc),
          missingCount = length (snd acc)\<rparr>)"

subsection \<open>Years of experience and education\<close>

definition yearsPatterns :: "regex list" where
  "yearsPatterns =
    [Seqs [Group (Plus (Chr isDigit)), Opt (Lit 43), Star (Chr isSpace), StrI ''year'',
           Opt (LitI 115), Plus (Chr isSpace), Opt (Seqs [StrI ''of'', Plus (Chr isSpace)]),
           StrI ''experience''],
     Seqs [StrI ''experience'', Plus (Chr (\<lambda>c. c = 58 \<or> isSpace c)),
           Group (Plus (Chr isDigit)), Opt (Lit 43), Star (Chr isSpace), StrI ''year'',
           Opt (LitI 115)],
     Seqs [Group (Plus (Chr isDigit)), Opt (Lit 43), Star (Chr isSpace), StrI ''year'',
           Opt (LitI 115), Plus (Chr isSpace), AnyI [''in'', ''with'']]]"

text \<open>
  \<open>parseInt\<close> of the captured digits is taken as the exact number; the code compares
  floating-point numbers, which are the same up to 2 to the power 53.
\<close>

definition extractYearsOfExperience :: "jsstring \<Rightarrow> nat option" where
  "extractYearsOfExperience text =
     (let maxYears =
            foldl (\<lambda>maxYears pattern.
                     foldl (\<lambda>maxYears m.
                              (case snd m of
                                 None \<Rightarrow> maxYears
                               | Some digits \<Rightarrow>
                                   let years = parseInt digits
                                   in if years > maxYears then years else maxYears))
                           maxYears (matchAll pattern text))
                  0 yearsPatterns
      in if maxYears > 0 then Some maxYears else None)"

datatype degree = phd | masters | bachelors | associates

record education =
  highestDegree :: "degree option"
  degrees :: "degree list"
  fieldOfStudy :: "jsstring list"

text \<open>An optional dot after a letter, as in \<open>m\.?s\.?\<close>.\<close>

definition dotted :: "string \<Rightarrow> regex" where
  "dotted s = Seqs (map (\<lambda>c. Seq (LitI (of_char c)) (Opt (Lit 46))) s)"

definition degreePattern :: "degree \<Rightarrow> regex" where
  "degreePattern d =
     (case d of
        phd \<Rightarrow> Alts [Seqs [StrI ''ph'', Opt (Lit 46), StrI ''d''], StrI ''doctorate'',
                     StrI ''doctoral'']
      | masters \<Rightarrow> Alts [Seqs [StrI ''master'', Opt (OneOf [39, 39]), StrI ''s''], dotted ''ms'',
                         dotted ''mba'', Seqs [dotted ''m'', StrI ''eng'']]
      | bachelors \<Rightarrow> Alts [Seqs [StrI ''bachelor'', Opt (OneOf [39, 39]), StrI ''s''],
                           dotted ''bs'', dotted ''ba'', Seqs [dotted ''b'', StrI ''eng''],
                           StrI ''undergraduate'']
      | associates \<Rightarrow> Alts [Seqs [StrI ''associate'', Opt (OneOf [39, 39]), StrI ''s''],
                            dotted ''as'', dotted ''aa''])"

definition fields :: "string list" where
  "fields =
    [''computer science'', ''data science'', ''engineering'', ''mathematics'',
     ''statistics'', ''business'', ''marketing'', ''finance'', ''accounting'',
     ''biology'', ''chemistry'', ''physics'', ''psychology'']"

text \<open>One of the four tests on the text, on the education record being filled.\<close>

definition detectDegree :: "jsstring \<Rightarrow> education \<Rightarrow> degree \<Rightarrow> education" where
  "detectDegree text e d =
     (if test (degreePattern d) text then
        e\<lparr>highestDegree := (if highestDegree e = None then Some d else highestDegree e),
          degrees := degrees e @ [d]\<rparr>
      else e)"

definition detectEducation :: "host \<Rightarrow> jsstring \<Rightarrow> education" where
  "detectEducation h text =
     (let lowerText = toLowerCase h text;
          e = foldl (detectDegree text)
                    \<lparr>highestDegree = None, degrees = [], fieldOfStudy = []\<rparr>
                    [phd, masters, bachelors, associates]
      in e\<lparr>fieldOfStudy := filter (\<lambda>field. includesStr lowerText field) (map js fields)\<rparr>)"

section \<open>The scorer\<close>

subsection \<open>Keyword match\<close>

record keywordScore =
  score :: rat
  matched :: nat
  missing :: nat
  matchRate :: rat
  matchedKeywords :: "jsstring list"
  missingKeywords :: "jsstring list"

definition calculateKeywordScore :: "host \<Rightarrow> keywordSet \<Rightarrow> keywordSet \<Rightarrow> keywordScore" where
  "calculateKeywordScore h resumeKeywords jobKeywords =
     (let comparison = compareKeywords h (allKeywords resumeKeywords) (allKeywords jobKeywords);
          techKeywordsMatch = compareKeywords h (map skill (skills resumeKeywords))
                                                (map skill (skills jobKeywords));
          score = (if comparison.matchRate techKeywordsMatch > 70
                   then min 100 (comparison.matchRate comparison + 10)
                   else comparison.matchRate comparison)
      in \<lparr>score = score,
          matched = matchedCount comparison,
          missing = missingCount comparison,
          matchRate = of_int (js_round (comparison.matchRate comparison * 10)) / 10,
          matchedKeywords = take 20 (comparison.matched comparison),
          missingKeywords = take 20 (comparison.missing comparison)\<rparr>)"

subsection \<open>Skills alignment\<close>

record skillsAnalysis =
  matched :: "skillRecord list"
  missing :: "skillRecord list"
  categories :: "(category \<times> nat) list"
  totalResumeSkills :: "nat option"
  totalJobSkills :: "nat option"

record skillsScore =
  score :: rat
  coverage :: int
  criticalMatched :: nat
  analysis :: skillsAnalysis

text \<open>\<open>categories[c] = (categories[c] || 0) + 1\<close> on an object that keeps the order of its keys.\<close>

fun bumpCategory :: "(category \<times> nat) list \<Rightarrow> category \<Rightarrow> (category \<times> nat) list" where
  "bumpCategory [] c = [(c, 1)]"
| "bumpCategory ((d, n) # rest) c =
     (if d = c then (d, n + 1) # rest else (d, n) # bumpCategory rest c)"

text \<open>
  The loop over the job's skills puts each of them on one of two lists, by whether its
  lower-cased name is among the resume's skill names.
\<close>

definition matchedSkills :: "host \<Rightarrow> skillRecord list \<Rightarrow> skillRecord list \<Rightarrow> skillRecord list" where
  "matchedSkills h resumeSkills jobSkills =
     filter (\<lambda>jobSkill. toLowerCase h (skill jobSkill)
                          \<in> set (map (\<lambda>s. toLowerCase h (skill s)) resumeSkills)) jobSkills"

definition missingSkills :: "host \<Rightarrow> skillRecord list \<Rightarrow> skillRecord list \<Rightarrow> skillRecord list" where
  "missingSkills h resumeSkills jobSkills =
     filter (\<lambda>jobSkill. toLowerCase h (skill jobSkill)
                          \<notin> set (map (\<lambda>s. toLowerCase h (skill s)) resumeSkills)) jobSkills"

definition coveragePercent :: "host \<Rightarrow> skillRecord list \<Rightarrow> skillRecord list \<Rightarrow> rat" where
  "coveragePercent h resumeSkills jobSkills =
     (if length jobSkills > 0
      then (of_nat (length (matchedSkills h resumeSkills jobSkills)) / of_nat (length jobSkills)) * 100
      else 0)"

definition extraSkills :: "host \<Rightarrow> skillRecord list \<Rightarrow> skillRecord list \<Rightarrow> int" where
  "extraSkills h resumeSkills jobSkills =
     int (length resumeSkills) - int (length (matchedSkills h resumeSkills jobSkills))"

definition calculateSkillsScore :: "host \<Rightarrow> jsstring \<Rightarrow> jsstring \<Rightarrow> skillsScore" where
  "calculateSkillsScore h resumeText jobDescription =
     (let resumeSkills = extractSkills (toLowerCase h resumeText);
          jobSkills = extractSkills (toLowerCase h jobDescription)
      in if length jobSkills = 0 then
           \<lparr>score = 75, coverage = 75, criticalMatched = 0,
            analysis = \<lparr>matched = [], missing = [], categories = [],
                        totalResumeSkills = None, totalJobSkills = None\<rparr>\<rparr>
         else
           let matchedSkills = matchedSkills h resumeSkills jobSkills;
               missingSkills = missingSkills h resumeSkills jobSkills;
               coverage = coveragePercent h resumeSkills jobSkills;
               score = (if extraSkills h resumeSkills jobSkills > 5 \<and> coverage > 50
                        then min 100 (coverage + 10) else coverage);
               categories = foldl bumpCategory [] (map category matchedSkills)
           in \<lparr>score = score, coverage = js_round coverage,
               criticalMatched = length matchedSkills,
               analysis = \<lparr>matched = take 15 matchedSkills, missing = take 10 missingSkills,
                           categories = categories,
                           totalResumeSkills = Some (length resumeSkills),
                           totalJobSkills = Some (length jobSkills)\<rparr>\<rparr>)"

subsection \<open>Experience relevance\<close>

record experienceAnalysis =
  resumeYears :: "nat option"
  requiredYears :: "nat option"
  meetsRequirement :: bool
  hasActionVerbs :: bool

record experienceScore =
  score :: rat
  analysis :: experienceAnalysis

definition leadershipTerms :: "string list" where
  "leadershipTerms = [''led'', ''managed'', ''directed'', ''supervised'', ''mentored'']"

definition hasLeadership :: "host \<Rightarrow> jsstring \<Rightarrow> bool" where
  "hasLeadership h resumeText =
     list_ex (\<lambda>term. includesStr (toLowerCase h resumeText) (js term)) leadershipTerms"

text \<open>
  The comparison of the years: the score it sets and whether the requirement is met. The
  first argument is what the job asks for, the second what the resume states.
\<close>

definition compareYears :: "nat option \<Rightarrow> nat option \<Rightarrow> rat \<times> bool" where
  "compareYears jobYears stated =
     (case jobYears of
        Some j \<Rightarrow>
          (case stated of
             None \<Rightarrow> (50, False)
           | Some r \<Rightarrow>
               if r \<ge> j then (100, True)
               else if (of_nat r :: rat) \<ge> of_nat j * (75 / 100) then (80, True)
               else (60, False))
      | None \<Rightarrow>
          (case stated of
             None \<Rightarrow> (70, False)
           | Some r \<Rightarrow> if r > 0 then (85, False) else (70, False)))"

definition calculateExperienceScore :: "host \<Rightarrow> jsstring \<Rightarrow> jsstring \<Rightarrow> experienceScore" where
  "calculateExperienceScore h resumeText jobDescription =
     (let resumeYears = extractYearsOfExperience resumeText;
          jobYears = extractYearsOfExperience jobDescription;
          compared = compareYears jobYears resumeYears;
          actionVerbs = extractActionVerbs (toLowerCase h resumeText);
          score1 = (if length actionVerbs \<ge> 5 then min 100 (fst compared + 10) else fst compared);
          score2 = (if hasLeadership h resumeText then min 100 (score1 + 5) else score1)
      in \<lparr>score = score2,
          analysis = \<lparr>resumeYears = resumeYears, requiredYears = jobYears,
                      meetsRequirement = snd compared,
                      hasActionVerbs = (length actionVerbs \<ge> 5)\<rparr>\<rparr>)"

subsection \<open>Education match\<close>

record educationAnalysis =
  resume :: education
  required :: education
  meetsRequirement :: bool

record educationScore =
  score :: rat
  analysis :: educationAnalysis

definition degreeRank :: "degree \<Rightarrow> int" where
  "degreeRank d = (case d of phd \<Rightarrow> 4 | masters \<Rightarrow> 3 | bachelors \<Rightarrow> 2 | associates \<Rightarrow> 1)"

text \<open>\<open>degreeRank[d] || 0\<close>, where \<open>d\<close> may be \<open>null\<close>.\<close>

definition rankOrZero :: "degree option \<Rightarrow> int" where
  "rankOrZero d = (case d of None \<Rightarrow> 0 | Some x \<Rightarrow> degreeRank x)"

text \<open>The comparison of the highest degrees, the resume's first.\<close>

definition compareDegrees :: "degree option \<Rightarrow> degree option \<Rightarrow> rat" where
  "compareDegrees resumeDegree jobDegree =
     (if jobDegree = None then
        (if resumeDegree \<noteq> None then 90 else 70)
      else
        let resumeRank = rankOrZero resumeDegree;
            jobRank = rankOrZero jobDegree
        in if resumeRank \<ge> jobRank then 100
           else if resumeRank = jobRank - 1 then 75
           else if resumeRank > 0 then 60
           else 40)"

definition fieldMatch :: "education \<Rightarrow> education \<Rightarrow> bool" where
  "fieldMatch resumeEducation jobEducation =
     (length (fieldOfStudy jobEducation) > 0 \<and> length (fieldOfStudy resumeEducation) > 0
      \<and> list_ex (\<lambda>field. field \<in> set (fieldOfStudy resumeEducation))
                 (fieldOfStudy jobEducation))"

definition calculateEducationScore :: "host \<Rightarrow> jsstring \<Rightarrow> jsstring \<Rightarrow> educationScore" where
  "calculateEducationScore h resumeText jobDescription =
     (let resumeEducation = detectEducation h resumeText;
          jobEducation = detectEducation h jobDescription;
          score0 = compareDegrees (highestDegree resumeEducation) (highestDegree jobEducation);
          score1 = (if fieldMatch resumeEducation jobEducation then min 100 (score0 + 10)
                    else score0)
      in \<lparr>score = score1,
          analysis = \<lparr>resume = resumeEducation, required = jobEducation,
                      meetsRequirement =
                        (case (highestDegree resumeEducation, highestDegree jobEducation) of
                           (Some r, Some j) \<Rightarrow> degreeRank r \<ge> degreeRank j
                         | _ \<Rightarrow> False)\<rparr>\<rparr>)"

subsection \<open>Format and readability\<close>

record formatAnalysis =
  issues :: "jsstring list"
  strengths :: "jsstring list"

record formatScore =
  score :: rat
  sections :: "(string \<times> bool) list"
  analysis :: formatAnalysis

definition sectionPatterns :: "(string \<times> regex) list" where
  "sectionPatterns =
    [(''contact'', Group (AnyI [''email'', ''phone'', ''address'', ''linkedin''])),
     (''experience'', Group (AnyI [''experience'', ''employment'', ''work history''])),
     (''education'', Group (AnyI [''education'', ''academic'', ''degree''])),
     (''skills'', Group (AnyI [''skills'', ''technical'', ''competencies'']))]"

text \<open>\<open>section.charAt(0).toUpperCase() + section.slice(1)\<close> on the four section names.\<close>

definition capitalize :: "jsstring \<Rightarrow> jsstring" where
  "capitalize s = (case s of [] \<Rightarrow> [] | c # cs \<Rightarrow> canon c # cs)"

text \<open>\<open>/\s+/\<close>, the separator of words.\<close>

definition whitespaceRun :: regex where
  "whitespaceRun = Plus (Chr isSpace)"

text \<open>\<open>text.split(/\s+/)\<close>, whose length is the word count wherever the code counts words.\<close>

definition splitWords :: "jsstring \<Rightarrow> jsstring list" where
  "splitWords text = splitRe whitespaceRun text"

text \<open>\<open>/\n[\s]*[-\<bullet>*]/g\<close>: a line feed, white space, and a dash, a bullet or a star.\<close>

definition isBullet :: "jschar \<Rightarrow> bool" where
  "isBullet c = (c \<in> set [45, 8226, 42])"

definition bulletRegex :: regex where
  "bulletRegex = Seqs [Lit 10, Star (Chr isSpace), Chr isBullet]"

definition bulletPointCount :: "jsstring \<Rightarrow> nat" where
  "bulletPointCount resumeText = length (matchAll bulletRegex resumeText)"

text \<open>\<open>/\d+[%$]?/g\<close>.\<close>

definition numberRegex :: regex where
  "numberRegex = Seqs [Plus (Chr isDigit), Opt (OneOf [37, 36])]"

text \<open>The trade mark, registered and copyright signs, and four filled shapes.\<close>

definition specialChars :: regex where
  "specialChars = OneOf [8482, 174, 169, 9830, 9679, 9670, 9642]"

text \<open>
  Each check of the format score gives its points, the issues it reports and the
  strengths it reports.
\<close>

type_synonym formatCheck = "rat \<times> jsstring list \<times> jsstring list"

definition foundSections :: "jsstring \<Rightarrow> (string \<times> bool) list" where
  "foundSections resumeText =
     map (\<lambda>(section, pattern). (section, test pattern resumeText)) sectionPatterns"

definition sectionCheck :: "jsstring \<Rightarrow> formatCheck" where
  "sectionCheck resumeText =
     (let found = foundSections resumeText;
          sectionCount = length (filter snd found)
      in ((of_nat sectionCount / of_nat (length sectionPatterns)) * 40,
          concat (map (\<lambda>(section, present).
                         if present then []
                         else [js ''Missing '' @ js section @ js '' section'']) found),
          concat (map (\<lambda>(section, present).
                         if present then [capitalize (js section) @ js '' section present'']
                         else []) found)))"

definition lengthCheck :: "jsstring \<Rightarrow> formatCheck" where
  "lengthCheck resumeText =
     (let wordCount = length (splitWords resumeText)
      in if wordCount \<ge> 300 \<and> wordCount \<le> 1000
         then (20, [], [js ''Optimal resume length''])
         else if wordCount < 300
         then (10, [js ''Resume may be too short''], [])
         else (15, [js ''Resume may be too long''], []))"

definition bulletCheck :: "jsstring \<Rightarrow> formatCheck" where
  "bulletCheck resumeText =
     (if bulletPointCount resumeText \<ge> 5
      then (15, [], [js ''Good use of bullet points''])
      else (5, [js ''Consider adding more bullet points''], []))"

definition numberCheck :: "jsstring \<Rightarrow> formatCheck" where
  "numberCheck resumeText =
     (let numberCount = length (matchAll numberRegex resumeText)
      in if numberCount \<ge> 5
         then (15, [], [js ''Contains quantifiable achievements''])
         else (5, [js ''Add more quantifiable results''], []))"

definition specialCheck :: "jsstring \<Rightarrow> formatCheck" where
  "specialCheck resumeText =
     (if test specialChars resumeText
      then (- 10, [js ''Contains special characters that may confuse ATS''], [])
      else (10, [], [js ''No problematic special characters'']))"

definition formatChecks :: "jsstring \<Rightarrow> formatCheck list" where
  "formatChecks resumeText =
     [sectionCheck resumeText, lengthCheck resumeText, bulletCheck resumeText,
      numberCheck resumeText, specialCheck resumeText]"

definition calculateFormatScore :: "jsstring \<Rightarrow> formatScore" where
  "calculateFormatScore resumeText =
     (let checks = formatChecks resumeText;
          score = sum_list (map fst checks)
      in \<lparr>score = max 0 (min 100 score),
          sections = foundSections resumeText,
          analysis = \<lparr>issues = concat (map (\<lambda>c. fst (snd c)) checks),
                      strengths = concat (map (\<lambda>c. snd (snd c)) checks)\<rparr>\<rparr>)"

subsection \<open>Derived metrics\<close>

definition achievementPatterns :: "regex list" where
  "achievementPatterns =
    [Seqs [Plus (Chr isDigit), Lit 37],
     Seqs [Lit 36, Plus (Chr (\<lambda>c. isDigit c \<or> c = 44))],
     Seqs [Plus (Chr isDigit), Star (Chr isSpace),
           Group (AnyI [''million'', ''thousand'', ''billion''])],
     Alts [StrI ''increased'', StrI ''decreased'', StrI ''improved'',
           Seqs [StrI ''reduced'', Star (Chr (\<lambda>c. isSpace c \<or> isWordChar c)), StrI ''by'',
                 Star (Chr isSpace), Plus (Chr isDigit)]],
     Seqs [Plus (Chr isDigit), Star (Chr isSpace),
           Group (AnyI [''years'', ''months'', ''weeks'', ''days''])]]"

text \<open>The sum, over a list of patterns, of the number of matches of each in the text.\<close>

definition countMatches :: "regex list \<Rightarrow> jsstring \<Rightarrow> nat" where
  "countMatches patterns text =
     foldl (\<lambda>count pattern. count + length (matchAll pattern text)) 0 patterns"

definition countQuantifiableAchievements :: "jsstring \<Rightarrow> nat" where
  "countQuantifiableAchievements text = countMatches achievementPatterns text"

definition calculateReadabilityScore :: "rat \<Rightarrow> rat \<Rightarrow> rat" where
  "calculateReadabilityScore avgSentenceLength activeVoiceRatio =
     (let score1 = (if avgSentenceLength > 25 then 100 - 20
                    else if avgSentenceLength > 20 then 100 - 10 else 100);
          score2 = (if avgSentenceLength < 10 then score1 - 15 else score1);
          score3 = (if activeVoiceRatio > 50 then score2 + 10 else score2)
      in max 0 (min 100 score3))"

record contentQuality =
  avgSentenceLength :: int
  activeVoiceRatio :: int
  usesSTARMethod :: bool
  starIndicatorCount :: nat
  readabilityScore :: rat
  wordCount :: nat
  sentenceCount :: nat

definition starIndicators :: "regex list" where
  "starIndicators =
    [AnyI [''achieved'', ''accomplished'', ''attained''],
     AnyI [''resulted in'', ''led to'', ''contributed to''],
     AnyI [''responsible for'', ''tasked with''],
     AnyI [''implemented'', ''executed'', ''delivered'']]"

definition analyzeContentQuality :: "host \<Rightarrow> jsstring \<Rightarrow> contentQuality" where
  "analyzeContentQuality h text =
     (let sentences = filter (\<lambda>s. length (trim s) > 0)
                             (splitRe (Plus (OneOf [46, 33, 63])) text);
          words = splitWords text;
          avgSentenceLength =
            (if length sentences > 0 then of_nat (length words) / of_nat (length sentences) else 0);
          actionVerbs = extractActionVerbs (toLowerCase h text);
          activeVoiceRatio =
            (if length sentences > 0
             then (of_nat (length actionVerbs) / of_nat (length sentences)) * 100 else 0);
          starCount = countMatches starIndicators text
      in \<lparr>avgSentenceLength = js_round avgSentenceLength,
          activeVoiceRatio = js_round activeVoiceRatio,
          usesSTARMethod = (starCount \<ge> 3),
          starIndicatorCount = starCount,
          readabilityScore = calculateReadabilityScore avgSentenceLength activeVoiceRatio,
          wordCount = length words,
          sentenceCount = length sentences\<rparr>)"

record contactInfo =
  hasEmail :: bool
  hasPhone :: bool
  hasLinkedIn :: bool
  hasLocation :: bool

text \<open>\<open>/[a-zA-Z0-9._%+-]+@[a-zA-Z0-9.-]+\.[a-zA-Z]{2,}/\<close>.\<close>

definition emailRegex :: regex where
  "emailRegex =
     (let letter = Chr (\<lambda>c. isLower c \<or> isUpper c) in
      Seqs [Plus (Chr (\<lambda>c. isLower c \<or> isUpper c \<or> isDigit c \<or> c \<in> set [46, 95, 37, 43, 45])),
            Lit 64,
            Plus (Chr (\<lambda>c. isLower c \<or> isUpper c \<or> isDigit c \<or> c \<in> set [46, 45])),
            Lit 46, letter, letter, Star letter])"

text \<open>\<open>/(\+?1[-.\s]?)?\(?\d{3}\)?[-.\s]?\d{3}[-.\s]?\d{4}/\<close>.\<close>

definition phoneRegex :: regex where
  "phoneRegex =
     (let d = Chr isDigit; sep = Opt (Chr (\<lambda>c. c = 45 \<or> c = 46 \<or> isSpace c)) in
      Seqs [Opt (Group (Seqs [Opt (Lit 43), Lit 49, sep])),
            Opt (Lit 40), d, d, d, Opt (Lit 41), sep, d, d, d, sep, d, d, d, d])"

definition checkContactInfo :: "jsstring \<Rightarrow> contactInfo" where
  "checkContactInfo text =
     \<lparr>hasEmail = test emailRegex text,
      hasPhone = test phoneRegex text,
      hasLinkedIn = test (StrI ''linkedin.com'') text,
      hasLocation = test (Group (AnyI [''city'', ''state'', ''address'', ''location''])) text\<rparr>"

definition isOptimalLength :: "jsstring \<Rightarrow> bool" where
  "isOptimalLength text =
     (let wordCount = length (splitWords text)
      in wordCount \<ge> 300 \<and> wordCount \<le> 1000)"

definition estimatePages :: "jsstring \<Rightarrow> int" where
  "estimatePages text =
     (let wordCount = length (splitWords text)
      in \<lceil>(of_nat wordCount :: rat) / 500\<rceil>)"

datatype grade = A | B | C | D | F

definition getScoreGrade :: "int \<Rightarrow> grade" where
  "getScoreGrade s =
     (if s \<ge> 90 then A else if s \<ge> 80 then B else if s \<ge> 70 then C
      else if s \<ge> 60 then D else F)"

subsection \<open>The aggregate\<close>

record resumeLength =
  words :: nat
  optimal :: bool
  pages :: int

record metrics =
  keywordsMatched :: nat
  keywordsMissing :: nat
  matchRate :: rat
  skillsCoverage :: int
  criticalSkillsMatched :: nat
  actionVerbsCount :: nat
  quantifiableAchievements :: nat
  resumeLength :: resumeLength
  contactInfo :: contactInfo
  sectionsComplete :: "(string \<times> bool) list"

record breakdownEntry =
  score :: int
  weight :: nat
  weightedScore :: int

record breakdown =
  keywordMatch :: breakdownEntry
  skillsAlignment :: breakdownEntry
  experienceRelevance :: breakdownEntry
  educationMatch :: breakdownEntry
  formatReadability :: breakdownEntry

record keywordAnalysis =
  matched :: "jsstring list"
  missing :: "jsstring list"
  matchRate :: rat

record scoreResult =
  overallScore :: int
  scoreGrade :: grade
  breakdown :: breakdown
  metrics :: metrics
  keywordAnalysis :: keywordAnalysis
  skillsAnalysis :: skillsAnalysis
  contentQuality :: contentQuality
  formatAnalysis :: formatAnalysis

text \<open>The weighted sum of the five scores, before it is rounded.\<close>

definition weightedSum :: "rat \<Rightarrow> rat \<Rightarrow> rat \<Rightarrow> rat \<Rightarrow> rat \<Rightarrow> rat" where
  "weightedSum k s e d f = k * (40 / 100) + s * (20 / 100) + e * (15 / 100) + d * (10 / 100)
                             + f * (15 / 100)"

definition calculateScore ::
  "host \<Rightarrow> jsstring \<Rightarrow> jsstring \<Rightarrow> keywordSet \<Rightarrow> keywordSet \<Rightarrow> jsstring \<Rightarrow> scoreResult" where
  "calculateScore h resumeText jobDescription resumeKeywords jobKeywords industry =
     (let keywordScore = calculateKeywordScore h resumeKeywords jobKeywords;
          skillsScore = calculateSkillsScore h resumeText jobDescription;
          experienceScore = calculateExperienceScore h resumeText jobDescription;
          educationScore = calculateEducationScore h resumeText jobDescription;
          formatScore = calculateFormatScore resumeText;
          overallScore =
            js_round (weightedSum (keywordScore.score keywordScore) (skillsScore.score skillsScore)
                        (experienceScore.score experienceScore)
                        (educationScore.score educationScore) (formatScore.score formatScore));
          metrics =
            \<lparr>keywordsMatched = keywordScore.matched keywordScore,
             keywordsMissing = keywordScore.missing keywordScore,
             matchRate = keywordScore.matchRate keywordScore,
             skillsCoverage = coverage skillsScore,
             criticalSkillsMatched = criticalMatched skillsScore,
             actionVerbsCount = length (actionVerbs resumeKeywords),
             quantifiableAchievements = countQuantifiableAchievements resumeText,
             resumeLength = \<lparr>words = length (splitWords resumeText),
                              optimal = isOptimalLength resumeText,
                              pages = estimatePages resumeText\<rparr>,
             contactInfo = checkContactInfo resumeText,
             sectionsComplete = sections formatScore\<rparr>
      in \<lparr>overallScore = overallScore,
          scoreGrade = getScoreGrade overallScore,
          breakdown =
            \<lparr>keywordMatch =
               \<lparr>score = js_round (keywordScore.score keywordScore), weight = 40,
                weightedScore = js_round (keywordScore.score keywordScore * (40 / 100))\<rparr>,
             skillsAlignment =
               \<lparr>score = js_round (skillsScore.score skillsScore), weight = 20,
                weightedScore = js_round (skillsScore.score skillsScore * (20 / 100))\<rparr>,
             experienceRelevance =
               \<lparr>score = js_round (experienceScore.score experienceScore), weight = 15,
                weightedScore = js_round (experienceScore.score experienceScore * (15 / 100))\<rparr>,
             educationMatch =
               \<lparr>score = js_round (educationScore.score educationScore), weight = 10,
                weightedScore = js_round (educationScore.score educationScore * (10 / 100))\<rparr>,
             formatReadability =
               \<lparr>score = js_round (formatScore.score formatScore), weight = 15,
                weightedScore = js_round (formatScore.score formatScore * (15 / 100))\<rparr>\<rparr>,
          metrics = metrics,
          keywordAnalysis =
            \<lparr>matched = matchedKeywords keywordScore, missing = missingKeywords keywordScore,
             matchRate = keywordScore.matchRate keywordScore\<rparr>,
          skillsAnalysis = skillsScore.analysis skillsScore,
          contentQuality = analyzeContentQuality h resumeText,
          formatAnalysis = formatScore.analysis formatScore\<rparr>)"

section \<open>The rules as the specification words them\<close>

text \<open>
  When a job keyword counts as matched: its lower case is among the resume's lower-cased
  keywords, or one of the two contains the other.
\<close>

definition keywordMatches :: "host \<Rightarrow> jsstring list \<Rightarrow> jsstring \<Rightarrow> bool" where
  "keywordMatches h resumeKeywords keyword =
     (let resumeSet = newSet (map (toLowerCase h) resumeKeywords);
          lowerKeyword = toLowerCase h keyword
      in lowerKeyword \<in> set resumeSet \<or> partialMatch resumeSet lowerKeyword)"




text \<open>
  The condition under which the specification grants the skills bonus: five or more extra
  skills and a coverage above 50.
\<close>

definition specSkillsBonus :: "int \<Rightarrow> rat \<Rightarrow> bool" where
  "specSkillsBonus extra cov = (extra \<ge> 5 \<and> cov > 50)"




text \<open>
  A bullet line, in the specification's words: a line that starts, after optional white
  space, with a dash, a bullet or a star. The lines of a text are its pieces between line
  feeds; \<open>bulletLines\<close> counts the bullet lines among all of them, \<open>laterBulletLines\<close> among
  all but the first.
\<close>

definition startsWithBullet :: "jsstring \<Rightarrow> bool" where
  "startsWithBullet line =
     (case dropWhile isSpace line of [] \<Rightarrow> False | c # _ \<Rightarrow> isBullet c)"

definition bulletLines :: "jsstring \<Rightarrow> nat" where
  "bulletLines text = length (filter startsWithBullet (splitChar 10 text))"

definition laterBulletLines :: "jsstring \<Rightarrow> nat" where
  "laterBulletLines text = length (filter startsWithBullet (tl (splitChar 10 text)))"

text \<open>
  A scan of the text that counts the same lines: the flag tells whether a line feed came
  before with nothing but white space since.
\<close>

fun bulletScan :: "bool \<Rightarrow> jsstring \<Rightarrow> nat" where
  "bulletScan w [] = 0"
| "bulletScan w (x # xs) =
     (if x = 10 then bulletScan True xs
      else if isSpace x then bulletScan w xs
      else (if w \<and> isBullet x then 1 else 0) + bulletScan False xs)"

text \<open>Five bullet lines, the first of them at the very start of the text.\<close>

definition exampleBulletText :: jsstring where
  "exampleBulletText =
     js ''- a'' @ 10 # js ''- b'' @ 10 # js ''- c'' @ 10 # js ''- d'' @ 10 # js ''- e''"

section \<open>Comparing keywords\<close>

lemma compareStep_foldl:
  "foldl (compareStep h (newSet (map (toLowerCase h) r))) (m, x) ks =
     (m @ filter (keywordMatches h r) ks, x @ filter (\<lambda>k. \<not> keywordMatches h r k) ks)"
  by (induction ks arbitrary: m x) (auto simp: compareStep_def keywordMatches_def Let_def)

lemma compareKeywords_matched:
  "comparison.matched (compareKeywords h r j) = filter (keywordMatches h r) j"
  by (simp add: compareKeywords_def Let_def compareStep_foldl)

lemma compareKeywords_missing:
  "comparison.missing (compareKeywords h r j) = filter (\<lambda>k. \<not> keywordMatches h r k) j"
  by (simp add: compareKeywords_def Let_def compareStep_foldl)

lemma compareKeywords_rate:
  "comparison.matchRate (compareKeywords h r j) =
     (if j = [] then 0
      else of_nat (length (filter (keywordMatches h r) j)) / of_nat (length j) * 100)"
  by (simp add: compareKeywords_def Let_def compareStep_foldl)


text \<open>
  Claim C7. The two lists that \<open>compareKeywords\<close> returns split the job keywords: together
  they hold every job keyword, no keyword is on both, their lower-cased sets make up the
  lower-cased job keywords, and the two counts add up to the number of job keywords. With
  no resume keyword, nothing is matched and the missing list is the list of job keywords.
\<close>

theorem compareKeywords_partition:
  "set (comparison.matched (compareKeywords h resumeKeywords jobKeywords))
     \<union> set (comparison.missing (compareKeywords h resumeKeywords jobKeywords)) = set jobKeywords
   \<and> set (comparison.matched (compareKeywords h resumeKeywords jobKeywords))
     \<inter> set (comparison.missing (compareKeywords h resumeKeywords jobKeywords)) = {}
   \<and> toLowerCase h ` (set (comparison.matched (compareKeywords h resumeKeywords jobKeywords))
        \<union> set (comparison.missing (compareKeywords h resumeKeywords jobKeywords)))
       = toLowerCase h ` set jobKeywords
   \<and> matchedCount (compareKeywords h resumeKeywords jobKeywords)
       + missingCount (compareKeywords h resumeKeywords jobKeywords)
       = totalJobKeywords (compareKeywords h resumeKeywords jobKeywords)
   \<and> totalJobKeywords (compareKeywords h resumeKeywords jobKeywords) = length jobKeywords
   \<and> comparison.matched (compareKeywords h [] jobKeywords) = []
   \<and> comparison.missing (compareKeywords h [] jobKeywords) = jobKeywords
   \<and> comparison.matchRate (compareKeywords h [] jobKeywords) = 0"
proof -
  let ?c = "compareKeywords h resumeKeywords jobKeywords"
  have m: "comparison.matched ?c = filter (keywordMatches h resumeKeywords) jobKeywords"
    by (rule compareKeywords_matched)
  have x: "comparison.missing ?c = filter (\<lambda>k. \<not> keywordMatches h resumeKeywords k) jobKeywords"
    by (rule compareKeywords_missing)
  have u: "set (comparison.matched ?c) \<union> set (comparison.missing ?c) = set jobKeywords"
    unfolding m x by auto
  have d: "set (comparison.matched ?c) \<inter> set (comparison.missing ?c) = {}"
    unfolding m x by auto
  have n: "matchedCount ?c + missingCount ?c = totalJobKeywords ?c"
    by (simp add: compareKeywords_def Let_def compareStep_foldl sum_length_filter_compl)
  have t: "totalJobKeywords ?c = length jobKeywords"
    by (simp add: compareKeywords_def Let_def)
  have e: "\<And>k. \<not> keywordMatches h [] k"
    by (simp add: keywordMatches_def newSet_def)
  have e1: "comparison.matched (compareKeywords h [] jobKeywords) = []"
    by (simp add: compareKeywords_matched e)
  have e2: "comparison.missing (compareKeywords h [] jobKeywords) = jobKeywords"
    by (simp add: compareKeywords_missing e)
  have e3: "comparison.matchRate (compareKeywords h [] jobKeywords) = 0"
    by (simp add: compareKeywords_rate e)
  show ?thesis using u d n t e1 e2 e3 by simp
qed

section \<open>The range of the scores\<close>

lemma ratio_range:
  assumes "a \<le> b"
  shows "0 \<le> (of_nat a / of_nat b :: rat) * 100 \<and> (of_nat a / of_nat b :: rat) * 100 \<le> 100"
proof (cases "b = 0")
  case True
  then show ?thesis by simp
next
  case False
  then have "(of_nat a :: rat) \<le> of_nat b" "(0::rat) < of_nat b" using assms by simp_all
  then show ?thesis by (simp add: divide_le_eq)
qed

lemma matchRate_range:
  "0 \<le> comparison.matchRate (compareKeywords h r j)
   \<and> comparison.matchRate (compareKeywords h r j) \<le> 100"
  using ratio_range [of "length (filter (keywordMatches h r) j)" "length j"]
  by (simp add: compareKeywords_rate)

lemma keywordScore_range:
  "0 \<le> keywordScore.score (calculateKeywordScore h rk jk)
   \<and> keywordScore.score (calculateKeywordScore h rk jk) \<le> 100"
  using matchRate_range [of h "allKeywords rk" "allKeywords jk"]
  by (simp add: calculateKeywordScore_def Let_def)

lemma coveragePercent_range:
  "0 \<le> coveragePercent h rs qs \<and> coveragePercent h rs qs \<le> 100"
  using ratio_range [of "length (matchedSkills h rs qs)" "length qs"]
  by (simp add: coveragePercent_def matchedSkills_def)

lemma skillsScore_range:
  "0 \<le> skillsScore.score (calculateSkillsScore h r j)
   \<and> skillsScore.score (calculateSkillsScore h r j) \<le> 100"
  using coveragePercent_range [of h "extractSkills (toLowerCase h r)"
          "extractSkills (toLowerCase h j)"]
  by (simp add: calculateSkillsScore_def Let_def)

lemma compareYears_range: "50 \<le> fst (compareYears a b) \<and> fst (compareYears a b) \<le> 100"
  by (simp add: compareYears_def split: option.splits)

lemma compareDegrees_range: "40 \<le> compareDegrees a b \<and> compareDegrees a b \<le> 100"
  by (simp add: compareDegrees_def Let_def)

lemma experienceScore_range:
  "0 \<le> experienceScore.score (calculateExperienceScore h r j)
   \<and> experienceScore.score (calculateExperienceScore h r j) \<le> 100"
  using compareYears_range [of "extractYearsOfExperience j" "extractYearsOfExperience r"]
  by (simp add: calculateExperienceScore_def Let_def)

lemma educationScore_range:
  "0 \<le> educationScore.score (calculateEducationScore h r j)
   \<and> educationScore.score (calculateEducationScore h r j) \<le> 100"
  using compareDegrees_range [of "highestDegree (detectEducation h r)"
          "highestDegree (detectEducation h j)"]
  by (simp add: calculateEducationScore_def Let_def)

lemma formatScore_range:
  "0 \<le> formatScore.score (calculateFormatScore r)
   \<and> formatScore.score (calculateFormatScore r) \<le> 100"
  by (simp add: calculateFormatScore_def Let_def)

lemma weightedSum_range:
  assumes "0 \<le> k \<and> k \<le> 100" "0 \<le> s \<and> s \<le> 100" "0 \<le> e \<and> e \<le> 100"
    "0 \<le> d \<and> d \<le> 100" "0 \<le> f \<and> f \<le> 100"
  shows "0 \<le> weightedSum k s e d f \<and> weightedSum k s e d f \<le> 100"
  using assms unfolding weightedSum_def by simp

lemma js_round_range: "0 \<le> x \<Longrightarrow> x \<le> 100 \<Longrightarrow> 0 \<le> js_round x \<and> js_round x \<le> 100"
  unfolding js_round_def by (simp add: le_floor_iff floor_le_iff)

lemma overallScore_eq:
  "overallScore (calculateScore h r j rk jk i) =
     js_round (weightedSum (keywordScore.score (calculateKeywordScore h rk jk))
                 (skillsScore.score (calculateSkillsScore h r j))
                 (experienceScore.score (calculateExperienceScore h r j))
                 (educationScore.score (calculateEducationScore h r j))
                 (formatScore.score (calculateFormatScore r)))"
  by (simp add: calculateScore_def Let_def)

text \<open>
  Claim C2. For every resume text and job description, the empty ones among them, and
  whatever the keyword sets, the overall score that \<open>calculateScore\<close> returns is an
  integer from 0 to 100.
\<close>

theorem overallScore_range:
  "0 \<le> overallScore (calculateScore h resumeText jobDescription resumeKeywords jobKeywords industry)
   \<and> overallScore (calculateScore h resumeText jobDescription resumeKeywords jobKeywords industry)
       \<le> 100
   \<and> 0 \<le> overallScore (calculateScore h [] [] resumeKeywords jobKeywords industry)
   \<and> overallScore (calculateScore h [] [] resumeKeywords jobKeywords industry) \<le> 100"
proof -
  have "\<And>r j. 0 \<le> overallScore (calculateScore h r j resumeKeywords jobKeywords industry)
     \<and> overallScore (calculateScore h r j resumeKeywords jobKeywords industry) \<le> 100"
  proof -
    fix r j
    have w: "0 \<le> weightedSum (keywordScore.score (calculateKeywordScore h resumeKeywords jobKeywords))
                 (skillsScore.score (calculateSkillsScore h r j))
                 (experienceScore.score (calculateExperienceScore h r j))
                 (educationScore.score (calculateEducationScore h r j))
                 (formatScore.score (calculateFormatScore r))
        \<and> weightedSum (keywordScore.score (calculateKeywordScore h resumeKeywords jobKeywords))
                 (skillsScore.score (calculateSkillsScore h r j))
                 (experienceScore.score (calculateExperienceScore h r j))
                 (educationScore.score (calculateEducationScore h r j))
                 (formatScore.score (calculateFormatScore r)) \<le> 100"
      by (rule weightedSum_range [OF keywordScore_range skillsScore_range experienceScore_range
            educationScore_range formatScore_range])
    show "0 \<le> overallScore (calculateScore h r j resumeKeywords jobKeywords industry)
     \<and> overallScore (calculateScore h r j resumeKeywords jobKeywords industry) \<le> 100"
      unfolding overallScore_eq using w js_round_range by blast
  qed
  then show ?thesis by blast
qed

section \<open>The experience rule\<close>







section \<open>The industry argument\<close>

text \<open>
  Claim C9. The result of \<open>calculateScore\<close> does not depend on the industry argument: for
  the same texts and keyword sets, any two industries give the same result, field by
  field.
\<close>

theorem industry_has_no_influence:
  "calculateScore h resumeText jobDescription resumeKeywords jobKeywords industry1
     = calculateScore h resumeText jobDescription resumeKeywords jobKeywords industry2"
  by (simp add: calculateScore_def)

section \<open>The word count\<close>

lemma splitFrom_nonempty: "splitFrom r n p cur s \<noteq> []"
  by (induction r n p cur s rule: splitFrom.induct) (auto split: option.splits)

lemma matchAt_whitespaceRun_Nil: "matchAt whitespaceRun p [] = None"
  by (simp add: matchAt_def whitespaceRun_def Plus_def)

lemma splitWords_Nil: "splitWords [] = [[]]"
  by (simp add: splitWords_def splitRe_def matchAt_whitespaceRun_Nil)

lemma splitWords_nonempty: "1 \<le> length (splitWords text)"
proof (cases "text = []")
  case True
  then show ?thesis by (simp add: splitWords_Nil)
next
  case False
  then have "splitWords text = splitFrom whitespaceRun 0 None [] text"
    by (simp add: splitWords_def splitRe_def)
  moreover have "splitFrom whitespaceRun 0 None [] text \<noteq> []" by (rule splitFrom_nonempty)
  ultimately show ?thesis by (cases "splitFrom whitespaceRun 0 None [] text") auto
qed

text \<open>
  Claim C10. The word count in the metrics is the number of pieces of the split on white
  space, which is at least 1 for every resume text, and so is the estimated page count.
  The empty resume splits into the one empty piece: it counts as 1 word, is not of
  optimal length, has 1 estimated page, and the length check of the format score takes
  its branch for fewer than 300 words.
\<close>

theorem word_count_at_least_one:
  "1 \<le> words (resumeLength (metrics
            (calculateScore h resumeText jobDescription resumeKeywords jobKeywords industry)))
   \<and> words (resumeLength (metrics
            (calculateScore h resumeText jobDescription resumeKeywords jobKeywords industry)))
       = length (splitWords resumeText)
   \<and> 1 \<le> estimatePages resumeText
   \<and> splitWords [] = [[]]
   \<and> words (resumeLength (metrics
            (calculateScore h [] jobDescription resumeKeywords jobKeywords industry))) = 1
   \<and> \<not> optimal (resumeLength (metrics
            (calculateScore h [] jobDescription resumeKeywords jobKeywords industry)))
   \<and> pages (resumeLength (metrics
            (calculateScore h [] jobDescription resumeKeywords jobKeywords industry))) = 1
   \<and> lengthCheck [] = (10, [js ''Resume may be too short''], [])"
proof -
  have w: "\<And>r j. words (resumeLength (metrics
              (calculateScore h r j resumeKeywords jobKeywords industry)))
       = length (splitWords r)"
    by (simp add: calculateScore_def Let_def)
  have o: "\<And>r j. optimal (resumeLength (metrics
              (calculateScore h r j resumeKeywords jobKeywords industry)))
       = isOptimalLength r"
    by (simp add: calculateScore_def Let_def)
  have p: "\<And>r j. pages (resumeLength (metrics
              (calculateScore h r j resumeKeywords jobKeywords industry)))
       = estimatePages r"
    by (simp add: calculateScore_def Let_def)
  have e: "1 \<le> estimatePages resumeText"
    using splitWords_nonempty [of resumeText]
    by (auto simp: estimatePages_def Let_def le_ceiling_iff)
  have e0: "estimatePages [] = 1"
    by (simp add: estimatePages_def splitWords_Nil ceiling_eq_iff)
  have o0: "\<not> isOptimalLength []"
    by (simp add: isOptimalLength_def splitWords_Nil)
  have l0: "lengthCheck [] = (10, [js ''Resume may be too short''], [])"
    by (simp add: lengthCheck_def splitWords_Nil)
  show ?thesis
    using splitWords_nonempty [of resumeText] e e0 o0 l0
    by (simp add: w o p splitWords_Nil)
qed

section \<open>The overall score and the breakdown\<close>















lemma formatScore_eq:
  "formatScore.score (calculateFormatScore r) =
     max 0 (min 100 (fst (sectionCheck r) + fst (lengthCheck r) + fst (bulletCheck r)
                      + fst (numberCheck r) + fst (specialCheck r)))"
  by (simp add: calculateFormatScore_def formatChecks_def Let_def)











section \<open>The skills bonus\<close>

lemma skills_score_eq:
  "skillsScore.score (calculateSkillsScore h resumeText jobDescription) =
     (if extractSkills (toLowerCase h jobDescription) = [] then 75
      else if extraSkills h (extractSkills (toLowerCase h resumeText))
                (extractSkills (toLowerCase h jobDescription)) > 5
              \<and> coveragePercent h (extractSkills (toLowerCase h resumeText))
                  (extractSkills (toLowerCase h jobDescription)) > 50
      then min 100 (coveragePercent h (extractSkills (toLowerCase h resumeText))
                      (extractSkills (toLowerCase h jobDescription)) + 10)
      else coveragePercent h (extractSkills (toLowerCase h resumeText))
             (extractSkills (toLowerCase h jobDescription)))"
  by (simp add: calculateSkillsScore_def Let_def)

lemma coverage_over_half:
  "qs \<noteq> [] \<Longrightarrow> (coveragePercent h rs qs > 50) = (2 * length (matchedSkills h rs qs) > length qs)"
proof -
  assume "qs \<noteq> []"
  then have p: "(0::rat) < of_nat (length qs)" by simp
  have "(coveragePercent h rs qs > 50)
          = ((of_nat (length qs) :: rat) < of_nat (2 * length (matchedSkills h rs qs)))"
    using p by (simp add: coveragePercent_def field_simps)
  also have "\<dots> = (length qs < 2 * length (matchedSkills h rs qs))"
    by (simp only: of_nat_less_iff)
  finally show ?thesis .
qed

lemma extra_over_five:
  "(extraSkills h rs qs > 5) = (length (matchedSkills h rs qs) + 6 \<le> length rs)"
  by (auto simp: extraSkills_def)

text \<open>
  Claim C4, as amended. When the job description yields no skill the score is 75. Otherwise
  the score is the coverage, the matched job skills over all job skills times 100, and it
  receives the bonus of 10, capped at 100, exactly when the resume has 6 or more skills
  beyond the matched ones and the coverage exceeds 50.
\<close>

theorem skills_bonus_rule:
  "skillsScore.score (calculateSkillsScore h resumeText jobDescription) =
     (let resumeSkills = extractSkills (toLowerCase h resumeText);
          jobSkills = extractSkills (toLowerCase h jobDescription);
          m = length (matchedSkills h resumeSkills jobSkills);
          cov = (of_nat m / of_nat (length jobSkills)) * 100
      in if jobSkills = [] then 75
         else if m + 6 \<le> length resumeSkills \<and> length jobSkills < 2 * m
         then min 100 (cov + 10)
         else cov)"
proof (cases "extractSkills (toLowerCase h jobDescription) = []")
  case True
  then show ?thesis by (simp add: skills_score_eq Let_def)
next
  case False
  then show ?thesis
    unfolding skills_score_eq Let_def
    by (simp add: coverage_over_half extra_over_five) (simp add: coveragePercent_def)
qed


lemma ex4_resume:
  "extractSkills (toLowerCase asciiHost (js ''python java go rust php swift kotlin'')) =
     [\<lparr>skill = js ''python'', category = programming, count = 1\<rparr>,
      \<lparr>skill = js ''java'', category = programming, count = 1\<rparr>,
      \<lparr>skill = js ''go'', category = programming, count = 1\<rparr>,
      \<lparr>skill = js ''rust'', category = programming, count = 1\<rparr>,
      \<lparr>skill = js ''php'', category = programming, count = 1\<rparr>,
      \<lparr>skill = js ''swift'', category = programming, count = 1\<rparr>,
      \<lparr>skill = js ''kotlin'', category = programming, count = 1\<rparr>]"
  by code_simp

lemma ex4_job:
  "extractSkills (toLowerCase asciiHost (js ''python java ruby'')) =
     [\<lparr>skill = js ''python'', category = programming, count = 1\<rparr>,
      \<lparr>skill = js ''java'', category = programming, count = 1\<rparr>,
      \<lparr>skill = js ''ruby'', category = programming, count = 1\<rparr>]"
  by code_simp

lemma ex4_matched:
  "matchedSkills asciiHost
     [\<lparr>skill = js ''python'', category = programming, count = 1\<rparr>,
      \<lparr>skill = js ''java'', category = programming, count = 1\<rparr>,
      \<lparr>skill = js ''go'', category = programming, count = 1\<rparr>,
      \<lparr>skill = js ''rust'', category = programming, count = 1\<rparr>,
      \<lparr>skill = js ''php'', category = programming, count = 1\<rparr>,
      \<lparr>skill = js ''swift'', category = programming, count = 1\<rparr>,
      \<lparr>skill = js ''kotlin'', category = programming, count = 1\<rparr>]
     [\<lparr>skill = js ''python'', category = programming, count = 1\<rparr>,
      \<lparr>skill = js ''java'', category = programming, count = 1\<rparr>,
      \<lparr>skill = js ''ruby'', category = programming, count = 1\<rparr>] =
     [\<lparr>skill = js ''python'', category = programming, count = 1\<rparr>,
      \<lparr>skill = js ''java'', category = programming, count = 1\<rparr>]"
  by code_simp

text \<open>
  Claim C4 as stated fails. The resume names seven skills, the job description three, two
  of them matched: exactly 5 extra skills and a coverage of 200/3, which the specification
  rewards, but the score stays at 200/3.
\<close>

theorem skills_bonus_counterexample:
  "specSkillsBonus
     (extraSkills asciiHost
        (extractSkills (toLowerCase asciiHost (js ''python java go rust php swift kotlin'')))
        (extractSkills (toLowerCase asciiHost (js ''python java ruby''))))
     (coveragePercent asciiHost
        (extractSkills (toLowerCase asciiHost (js ''python java go rust php swift kotlin'')))
        (extractSkills (toLowerCase asciiHost (js ''python java ruby''))))
   \<and> coveragePercent asciiHost
        (extractSkills (toLowerCase asciiHost (js ''python java go rust php swift kotlin'')))
        (extractSkills (toLowerCase asciiHost (js ''python java ruby''))) = 200 / 3
   \<and> skillsScore.score
        (calculateSkillsScore asciiHost (js ''python java go rust php swift kotlin'')
           (js ''python java ruby'')) = 200 / 3"
  unfolding skills_score_eq specSkillsBonus_def extraSkills_def coveragePercent_def
    ex4_resume ex4_job ex4_matched
  by simp

section \<open>The bullet points\<close>

lemma bullet_not_space: "isBullet c \<Longrightarrow> \<not> isSpace c"
  by (auto simp: isBullet_def isSpace_def)

lemma isSpace_10: "isSpace 10"
  by (simp add: isSpace_def)

lemma star_space_bullet:
  "rmatch (Star (Chr isSpace)) (p, s, c) (\<lambda>st. rmatch (Chr isBullet) st Some) =
     (case dropWhile isSpace s of
        [] \<Rightarrow> None
      | b # rest \<Rightarrow> if isBullet b then Some (Some b, rest, c) else None)"
proof (induction s arbitrary: p)
  case Nil
  then show ?case by simp
next
  case (Cons x xs)
  show ?case
  proof (cases "isSpace x")
    case True
    then have nb: "\<not> isBullet x" using bullet_not_space by blast
    show ?thesis
      using True nb Cons.IH [of "Some x"]
      by (simp split: list.splits option.splits)
  next
    case False
    then show ?thesis by simp
  qed
qed

lemma rmatch_bullet:
  "rmatch bulletRegex (p, s, c) Some =
     (case s of
        [] \<Rightarrow> None
      | x # xs \<Rightarrow>
          if x = 10 then
            (case dropWhile isSpace xs of
               [] \<Rightarrow> None
             | b # rest \<Rightarrow> if isBullet b then Some (Some b, rest, c) else None)
          else None)"
proof (cases s)
  case Nil
  then show ?thesis by (simp add: bulletRegex_def Lit_def)
next
  case (Cons x xs)
  then show ?thesis
    by (simp add: bulletRegex_def Lit_def star_space_bullet del: rmatch.simps(5))
qed

lemma matchAt_bullet:
  "matchAt bulletRegex p s =
     (case s of
        [] \<Rightarrow> None
      | x # xs \<Rightarrow>
          if x = 10 then
            (case dropWhile isSpace xs of
               [] \<Rightarrow> None
             | b # rest \<Rightarrow>
                 if isBullet b then Some (take (Suc (length xs) - length rest) (x # xs), None)
                 else None)
          else None)"
proof (cases s)
  case Nil
  then show ?thesis by (simp add: matchAt_def rmatch_bullet)
next
  case (Cons x xs)
  then show ?thesis
    by (cases "dropWhile isSpace xs")
      (simp_all add: matchAt_def rmatch_bullet del: dropWhile_eq_Nil_conv)
qed

lemma length_dropWhile_rest:
  "dropWhile P xs = b # rest \<Longrightarrow> length xs = length (takeWhile P xs) + Suc (length rest)"
proof -
  assume a: "dropWhile P xs = b # rest"
  have "length xs = length (takeWhile P xs @ dropWhile P xs)" by simp
  also have "\<dots> = length (takeWhile P xs) + Suc (length rest)"
    unfolding length_append a by simp
  finally show ?thesis .
qed

lemma matchesFrom_bullet_prev:
  "length (matchesFrom bulletRegex n p s) = length (matchesFrom bulletRegex 0 q (drop n s))"
proof (induction s arbitrary: n p q)
  case Nil
  then show ?case by (cases n) (simp_all add: matchAt_bullet)
next
  case (Cons x xs)
  show ?case
  proof (cases n)
    case 0
    have "matchAt bulletRegex p (x # xs) = matchAt bulletRegex q (x # xs)"
      by (simp add: matchAt_bullet)
    then show ?thesis using 0 by simp
  next
    case (Suc m)
    then show ?thesis using Cons.IH [of m "Some x" q] by simp
  qed
qed

lemma bulletScan_spaces:
  "list_all isSpace ws \<Longrightarrow> bulletScan True (ws @ s) = bulletScan True s"
  by (induction ws) auto

lemma bulletScan_any:
  "(case dropWhile isSpace s of [] \<Rightarrow> True | b # _ \<Rightarrow> \<not> isBullet b)
     \<Longrightarrow> bulletScan w s = bulletScan v s"
  by (induction s arbitrary: w v) (auto simp: isSpace_10)

lemma bulletScan_no_bullet:
  "(case dropWhile isSpace s of [] \<Rightarrow> True | b # _ \<Rightarrow> \<not> isBullet b)
     \<Longrightarrow> bulletScan True s = bulletScan False s"
  by (rule bulletScan_any)

lemma takeWhile_all: "list_all P (takeWhile P xs)"
  by (induction xs) auto

lemma bulletScan_after_newline:
  assumes "dropWhile isSpace xs = b # rest" "isBullet b"
  shows "bulletScan True xs = Suc (bulletScan False rest)"
proof -
  have nb: "\<not> isSpace b" "b \<noteq> 10" using assms(2) bullet_not_space isSpace_10 by auto
  have "bulletScan True xs = bulletScan True (takeWhile isSpace xs @ dropWhile isSpace xs)" by simp
  also have "\<dots> = bulletScan True (b # rest)"
    unfolding assms(1) by (rule bulletScan_spaces [OF takeWhile_all])
  also have "\<dots> = Suc (bulletScan False rest)" using nb assms(2) by simp
  finally show ?thesis .
qed

lemma matchesFrom_bulletScan:
  "length (matchesFrom bulletRegex 0 p s) = bulletScan False s"
proof (induction s arbitrary: p rule: length_induct)
  case (1 s)
  show ?case
  proof (cases s)
    case Nil
    then show ?thesis by (simp add: matchAt_bullet)
  next
    case (Cons x xs)
    have ih: "\<And>t q. length t < length s \<Longrightarrow> length (matchesFrom bulletRegex 0 q t) = bulletScan False t"
      using 1 by blast
    show ?thesis
    proof (cases "x = 10")
      case False
      then have "matchAt bulletRegex p (x # xs) = None" by (simp add: matchAt_bullet)
      then have "length (matchesFrom bulletRegex 0 p s) = length (matchesFrom bulletRegex 0 (Some x) xs)"
        using Cons by simp
      also have "\<dots> = bulletScan False xs" using ih [of xs] Cons by simp
      finally show ?thesis using Cons False by simp
    next
      case True
      show ?thesis
      proof (cases "dropWhile isSpace xs")
        case Nil
        then have "matchAt bulletRegex p (x # xs) = None"
          by (simp add: matchAt_bullet del: dropWhile_eq_Nil_conv)
        then have "length (matchesFrom bulletRegex 0 p s) = length (matchesFrom bulletRegex 0 (Some x) xs)"
          using \<open>s = x # xs\<close> by simp
        also have "\<dots> = bulletScan False xs" using ih [of xs] \<open>s = x # xs\<close> by simp
        also have "\<dots> = bulletScan True xs"
          using Nil by (simp add: bulletScan_no_bullet del: dropWhile_eq_Nil_conv)
        finally show ?thesis using \<open>s = x # xs\<close> True by simp
      next
        case (Cons b rest)
        note dw = Cons
        show ?thesis
        proof (cases "isBullet b")
          case False
          then have "matchAt bulletRegex p (x # xs) = None" using dw by (simp add: matchAt_bullet)
          then have "length (matchesFrom bulletRegex 0 p s) = length (matchesFrom bulletRegex 0 (Some x) xs)"
            using \<open>s = x # xs\<close> by simp
          also have "\<dots> = bulletScan False xs" using ih [of xs] \<open>s = x # xs\<close> by simp
          also have "\<dots> = bulletScan True xs" using dw False by (simp add: bulletScan_no_bullet)
          finally show ?thesis using \<open>s = x # xs\<close> True by simp
        next
          case isb: True
          have len: "length xs = length (takeWhile isSpace xs) + Suc (length rest)"
            by (rule length_dropWhile_rest [OF dw])
          have m: "matchAt bulletRegex p (x # xs)
                     = Some (take (Suc (length xs) - length rest) (x # xs), None)"
            using True dw isb by (simp add: matchAt_bullet)
          have lm: "length (take (Suc (length xs) - length rest) (x # xs)) - 1
                      = Suc (length (takeWhile isSpace xs))"
            using len by simp
          have dr: "drop (Suc (length (takeWhile isSpace xs))) xs = rest"
          proof -
            have "drop (Suc (length (takeWhile isSpace xs))) (takeWhile isSpace xs @ b # rest) = rest"
              by simp
            then show ?thesis using dw by (metis takeWhile_dropWhile_id)
          qed
          have "length (matchesFrom bulletRegex 0 p s)
                  = Suc (length (matchesFrom bulletRegex (Suc (length (takeWhile isSpace xs))) (Some x) xs))"
            using \<open>s = x # xs\<close> m lm by simp
          also have "\<dots> = Suc (length (matchesFrom bulletRegex 0 None rest))"
            using matchesFrom_bullet_prev [of "Suc (length (takeWhile isSpace xs))" "Some x" xs None] dr
            by simp
          also have "\<dots> = Suc (bulletScan False rest)"
            using ih [of rest None] len \<open>s = x # xs\<close> by simp
          also have "\<dots> = bulletScan True xs"
            using bulletScan_after_newline [OF dw isb] by simp
          finally show ?thesis using \<open>s = x # xs\<close> True by simp
        qed
      qed
    qed
  qed
qed

lemma splitChar_nonempty: "splitChar c s \<noteq> []"
  by (induction s) (auto split: list.splits)

lemma lines_bulletScan:
  "length (filter startsWithBullet (splitChar 10 s)) = bulletScan True s
   \<and> length (filter startsWithBullet (tl (splitChar 10 s))) = bulletScan False s"
proof (induction s)
  case Nil
  then show ?case by (simp add: startsWithBullet_def)
next
  case (Cons x xs)
  obtain l ls where sp: "splitChar 10 xs = l # ls"
    using splitChar_nonempty [of 10 xs] by (cases "splitChar 10 xs") auto
  show ?case
  proof (cases "x = 10")
    case True
    then show ?thesis using Cons by (simp add: startsWithBullet_def)
  next
    case False
    have tl: "length (filter startsWithBullet ls) = bulletScan False xs"
      using Cons sp by simp
    have hd: "length (filter startsWithBullet (l # ls)) = bulletScan True xs"
      using Cons sp by simp
    show ?thesis
    proof (cases "isSpace x")
      case True
      have "startsWithBullet (x # l) = startsWithBullet l"
        using True by (simp add: startsWithBullet_def)
      then show ?thesis using False True sp tl hd by (cases "startsWithBullet l") simp_all
    next
      case ns: False
      have "startsWithBullet (x # l) = isBullet x"
        using ns by (simp add: startsWithBullet_def)
      then show ?thesis using False ns sp tl by (cases "isBullet x") simp_all
    qed
  qed
qed

lemma bulletPointCount_lines: "bulletPointCount text = laterBulletLines text"
  by (simp add: bulletPointCount_def laterBulletLines_def matchAll_def matchesFrom_bulletScan
        lines_bulletScan)

lemma bulletLines_first:
  "bulletLines text = laterBulletLines text
     + (if startsWithBullet (hd (splitChar 10 text)) then 1 else 0)"
  using splitChar_nonempty [of 10 "text"]
  by (cases "splitChar 10 text") (simp_all add: bulletLines_def laterBulletLines_def)

text \<open>
  Claim C5, as amended. The bullet-point check adds 15 exactly when the text has at least
  5 bullet lines after its first line, and 5 otherwise: the count the code takes is the
  number of lines, other than the first, that start with a dash, a bullet or a star after
  optional white space. A bullet line at the very start of the text has no line feed
  before it and is not counted.
\<close>

theorem bullet_check_rule:
  "bulletPointCount resumeText = laterBulletLines resumeText
   \<and> bulletCheck resumeText =
       (if 5 \<le> laterBulletLines resumeText then (15, [], [js ''Good use of bullet points''])
        else (5, [js ''Consider adding more bullet points''], []))
   \<and> formatScore.score (calculateFormatScore resumeText) =
       max 0 (min 100 (fst (sectionCheck resumeText) + fst (lengthCheck resumeText)
                        + (if 5 \<le> laterBulletLines resumeText then 15 else 5)
                        + fst (numberCheck resumeText) + fst (specialCheck resumeText)))
   \<and> bulletLines resumeText =
       laterBulletLines resumeText
         + (if startsWithBullet (hd (splitChar 10 resumeText)) then 1 else 0)"
proof -
  have c: "bulletCheck resumeText =
       (if 5 \<le> laterBulletLines resumeText then (15, [], [js ''Good use of bullet points''])
        else (5, [js ''Consider adding more bullet points''], []))"
    by (simp add: bulletCheck_def bulletPointCount_lines)
  have f: "fst (bulletCheck resumeText) = (if 5 \<le> laterBulletLines resumeText then 15 else 5)"
    by (simp add: c)
  show ?thesis
    using c bulletLines_first [of resumeText]
    by (simp add: bulletPointCount_lines formatScore_eq f)
qed

lemma ex5: "bulletLines exampleBulletText = 5 \<and> bulletPointCount exampleBulletText = 4"
  by code_simp

lemma ex5f: "formatScore.score (calculateFormatScore exampleBulletText) = 30"
  by code_simp

lemma ex5b: "bulletCheck exampleBulletText = (5, [js ''Consider adding more bullet points''], [])"
  by code_simp

text \<open>
  Claim C5 as stated fails. The example text has five bullet lines, the first at the very
  start of the text. The code counts four, the check adds 5 and reports too few bullet
  points, and the format score is 30.
\<close>

theorem bullet_lines_counterexample:
  "bulletLines exampleBulletText = 5
   \<and> bulletPointCount exampleBulletText = 4
   \<and> bulletCheck exampleBulletText = (5, [js ''Consider adding more bullet points''], [])
   \<and> formatScore.score (calculateFormatScore exampleBulletText) = 30"
  using ex5 ex5b ex5f by simp

section \<open>The extractor returns\<close>

lemma rmatch_consumes:
  "rmatch r st k = Some res \<Longrightarrow>
     \<exists>st'. k st' = Some res \<and> length (fst (snd st')) + minLen r \<le> length (fst (snd st))"
proof (induction r st k arbitrary: res rule: rmatch.induct)
  case (1 P p s c k)
  then show ?case by (cases s) (auto split: if_splits)
next
  case (2 st k)
  then show ?case by (intro exI [of _ st]) simp
next
  case (3 a b st k)
  from "3.prems" have "rmatch a st (\<lambda>st'. rmatch b st' k) = Some res" by simp
  then obtain st1 where
    s1: "rmatch b st1 k = Some res" "length (fst (snd st1)) + minLen a \<le> length (fst (snd st))"
    using "3.IH" by blast
  then obtain st2 where
    s2: "k st2 = Some res" "length (fst (snd st2)) + minLen b \<le> length (fst (snd st1))"
    using "3.IH" by blast
  show ?case using s1(2) s2 by (intro exI [of _ st2]) simp
next
  case (4 a b st k)
  show ?case
  proof (cases "rmatch a st k")
    case None
    then have "rmatch b st k = Some res" using "4.prems" by simp
    then obtain st' where "k st' = Some res" "length (fst (snd st')) + minLen b \<le> length (fst (snd st))"
      using "4.IH" None by blast
    then show ?thesis by (intro exI [of _ st']) simp
  next
    case (Some r)
    then have "rmatch a st k = Some res" using "4.prems" by simp
    then obtain st' where "k st' = Some res" "length (fst (snd st')) + minLen a \<le> length (fst (snd st))"
      using "4.IH" by blast
    then show ?thesis by (intro exI [of _ st']) simp
  qed
next
  case (5 a p s c k)
  let ?k = "\<lambda>(p', s', c'). if length s' < length s then rmatch (Star a) (p', s', c') k else None"
  show ?case
  proof (cases "rmatch a (p, s, c) ?k")
    case None
    then have "k (p, s, c) = Some res" using "5.prems" by simp
    then show ?thesis by (intro exI [of _ "(p, s, c)"]) simp
  next
    case (Some r)
    then have "rmatch a (p, s, c) ?k = Some res" using "5.prems" by simp
    then obtain st1 where
      s1: "?k st1 = Some res" "length (fst (snd st1)) + minLen a \<le> length (fst (snd (p, s, c)))"
      using "5.IH" by blast
    obtain p1 t1 c1 where st1: "st1 = (p1, t1, c1)" by (cases st1) auto
    have lt: "length t1 < length s" and rec: "rmatch (Star a) (p1, t1, c1) k = Some res"
      using s1(1) st1 by (auto split: if_splits)
    obtain st2 where
      s2: "k st2 = Some res" "length (fst (snd st2)) + minLen (Star a) \<le> length (fst (snd (p1, t1, c1)))"
      using "5.IH" lt rec by blast
    show ?thesis using s2 lt by (intro exI [of _ st2]) simp
  qed
next
  case (6 p s c k)
  then show ?case by (auto split: if_splits)
next
  case (7 a p s c k)
  from "7.prems" have
    "rmatch a (p, s, c) (\<lambda>(p', s', c'). k (p', s', Some (take (length s - length s') s))) = Some res"
    by simp
  from "7.IH" [OF this] obtain p1 t1 c1 where
    s1: "k (p1, t1, Some (take (length s - length t1) s)) = Some res"
        "length t1 + minLen a \<le> length s"
    by auto
  show ?case
    using s1 by (intro exI [of _ "(p1, t1, Some (take (length s - length t1) s))"]) simp
qed

lemma matchAt_length:
  assumes "matchAt r p s = Some m"
  shows "minLen r \<le> length (fst m) \<and> length (fst m) \<le> length s"
proof -
  from assms obtain p' s' c' where
    r: "rmatch r (p, s, None) Some = Some (p', s', c')" and m: "m = (take (length s - length s') s, c')"
    by (auto simp: matchAt_def split: option.splits)
  from rmatch_consumes [OF r] have "length s' + minLen r \<le> length s" by auto
  then show ?thesis using m by simp
qed

lemma length_advance: "length (snd (advance n p s)) = length s - n"
  by (induction n p s rule: advance.induct) simp_all

lemma execFrom_shorter:
  "execFrom r p s = Some (m, p', s') \<Longrightarrow> 0 < minLen r \<Longrightarrow> length s' < length s"
proof (induction s arbitrary: p)
  case Nil
  then show ?case using matchAt_length [of r p "[]"] by (auto split: option.splits)
next
  case (Cons x xs)
  show ?case
  proof (cases "matchAt r p (x # xs)")
    case None
    then have "execFrom r (Some x) xs = Some (m, p', s')" using Cons.prems(1) by simp
    from Cons.IH [OF this Cons.prems(2)] show ?thesis by simp
  next
    case (Some m')
    then have e: "(p', s') = advance (length (fst m')) p (x # xs)" using Cons.prems(1) by auto
    have "0 < length (fst m')" using matchAt_length [OF Some] Cons.prems(2) by linarith
    moreover have "length s' = length (x # xs) - length (fst m')"
      using length_advance [of "length (fst m')" p "x # xs"] e by (metis snd_conv)
    ultimately show ?thesis by simp
  qed
qed

lemma execLoop_returns:
  "0 < minLen r \<Longrightarrow> \<exists>ms. execLoop r p s = Some ms"
proof (induction s arbitrary: p rule: length_induct)
  case (1 s)
  show ?case
  proof (cases "execFrom r p s")
    case None
    then show ?thesis by (subst execLoop.simps) simp
  next
    case (Some res)
    obtain m p' s' where res: "res = (m, p', s')" by (cases res) auto
    have "length s' < length s" using execFrom_shorter [of r p s m p' s'] Some res "1.prems" by simp
    then obtain ms where "execLoop r p' s' = Some ms" using 1 by blast
    then show ?thesis using Some res by (subst execLoop.simps) simp
  qed
qed

lemma minLen_bigram: "0 < minLen bigramRegex"
  by (simp add: bigramRegex_def Plus_def)

lemma extractPhrases_returns: "\<exists>ps. extractPhrases h t = Some ps"
proof -
  obtain ms where "execLoop bigramRegex None (toLowerCase h t) = Some ms"
    using execLoop_returns [OF minLen_bigram] by blast
  then show ?thesis by (simp add: extractPhrases_def Let_def)
qed

lemma trim_spaces: "list_all isSpace t \<Longrightarrow> trim t = []"
proof -
  assume "list_all isSpace t"
  then have "dropWhile isSpace t = []" by (simp add: list_all_iff)
  then show ?thesis by (simp add: trim_def del: dropWhile_eq_Nil_conv)
qed

text \<open>
  Claim C8. \<open>extractKeywords\<close> returns a keyword set for every text, and for a text that
  is empty or holds only white space the set it returns has no keywords, skills, action
  verbs, phrases or entities.
\<close>

theorem extractKeywords_total:
  "(\<exists>ks. extractKeywords h t = Some ks)
   \<and> (list_all isSpace t \<longrightarrow>
        extractKeywords h t =
          Some \<lparr>allKeywords = [], skills = [], actionVerbs = [], phrases = [], entities = [],
                metadata = None\<rparr>)"
proof -
  obtain ps where ps: "extractPhrases h t = Some ps" using extractPhrases_returns by blast
  have a: "\<exists>ks. extractKeywords h t = Some ks"
    by (simp add: extractKeywords_def Let_def ps)
  have b: "list_all isSpace t \<longrightarrow>
        extractKeywords h t =
          Some \<lparr>allKeywords = [], skills = [], actionVerbs = [], phrases = [], entities = [],
                metadata = None\<rparr>"
    by (simp add: extractKeywords_def trim_spaces)
  show ?thesis using a b by blast
qed

text \<open>The claim on a text of a space, a tab and a line feed, and on the empty text.\<close>

theorem extractKeywords_total_witness:
  "list_all isSpace (js '' '' @ [9, 10])
   \<and> extractKeywords asciiHost (js '' '' @ [9, 10]) =
       Some \<lparr>allKeywords = [], skills = [], actionVerbs = [], phrases = [], entities = [],
             metadata = None\<rparr>
   \<and> extractKeywords asciiHost [] =
       Some \<lparr>allKeywords = [], skills = [], actionVerbs = [], phrases = [], entities = [],
             metadata = None\<rparr>"
  using extractKeywords_total [of asciiHost "js '' '' @ [9, 10]"]
    extractKeywords_total [of asciiHost "[]"]
  by (simp add: js_def isSpace_def)

end
